theory Spec2Isabelle
  imports Complex_Main
begin

section \<open>Strings\<close>

text \<open>
  A JavaScript string is modelled as a \<^typ>\<open>string\<close> whose characters are the code units
  below 256 (Latin-1), which covers every literal of the sources. The accented letters of
  the Portuguese and Spanish literals are written by their code.
\<close>

definition Portugues_BR :: string where
  "Portugues_BR = ''Portugu'' @ [CHR 0xEA] @ ''s (BR)''"

definition English_US :: string where
  "English_US = ''English (US)''"

definition Espanol_ES :: string where
  "Espanol_ES = ''Espa'' @ [CHR 0xF1] @ ''ol (ES)''"

definition Nao_identificado :: string where
  "Nao_identificado = ''N'' @ [CHR 0xE3] @ ''o identificado''"

definition Erro_na_deteccao :: string where
  "Erro_na_deteccao = ''Erro na detec'' @ [CHR 0xE7, CHR 0xE3] @ ''o''"

definition Nao_foi_possivel :: string where
  "Nao_foi_possivel = ''N'' @ [CHR 0xE3] @ ''o foi poss'' @ [CHR 0xED]
     @ ''vel gerar uma resposta baseada no conte'' @ [CHR 0xFA] @ ''do transcrito.''"

definition Falha_ao_analisar :: string where
  "Falha_ao_analisar = ''Falha ao analisar conte'' @ [CHR 0xFA] @ ''do: ''"

definition Transcricao_e_pergunta :: string where
  "Transcricao_e_pergunta = ''Transcri'' @ [CHR 0xE7, CHR 0xE3] @ ''o e pergunta s''
     @ [CHR 0xE3] @ ''o obrigat'' @ [CHR 0xF3] @ ''rias''"

text \<open>The characters \<open>\s\<close> matches and \<open>trim\<close> removes, among the code units below 256.\<close>

definition is_space :: "char \<Rightarrow> bool" where
  "is_space c \<longleftrightarrow> c \<in> {CHR 0x09, CHR 0x0A, CHR 0x0B, CHR 0x0C, CHR 0x0D, CHR '' '', CHR 0xA0}"

text \<open>\<open>String.prototype.toLowerCase\<close> on one code unit below 256.\<close>

definition toLowerCase_char :: "char \<Rightarrow> char" where
  "toLowerCase_char c =
     (let n = (of_char c :: nat)
      in if (65 \<le> n \<and> n \<le> 90) \<or> (192 \<le> n \<and> n \<le> 222 \<and> n \<noteq> 215)
         then char_of (n + 32) else c)"

definition toLowerCase :: "string \<Rightarrow> string" where
  "toLowerCase s = map toLowerCase_char s"

text \<open>
  \<open>s.split(/\s+/)\<close>: the pieces between maximal runs of white space. A leading or
  trailing run leaves an empty piece at that end, and the empty string gives one empty
  piece.
\<close>

fun split_ws :: "string \<Rightarrow> string list" where
  "split_ws [] = [[]]"
| "split_ws (c # cs) =
     (if is_space c
      then (case cs of
              [] \<Rightarrow> [[], []]
            | d # ds \<Rightarrow> if is_space d then split_ws cs else [] # split_ws cs)
      else (case split_ws cs of
              [] \<Rightarrow> [[c]]
            | w # ws \<Rightarrow> (c # w) # ws))"

definition trim :: "string \<Rightarrow> string" where
  "trim s = rev (dropWhile is_space (rev (dropWhile is_space s)))"

section \<open>JavaScript values read from the AI provider\<close>

text \<open>
  What \<open>JSON.parse\<close> returns. An object is the list of its own properties, each key
  once. A number is the real it denotes; a literal too large for a double parses to
  Infinity, which \<open>Math.min\<close> and \<open>Math.max\<close> treat as any number above 1.
\<close>

datatype json =
    JNull
  | JBool bool
  | JNum real
  | JStr string
  | JArr "json list"
  | JObj "(string \<times> json) list"

text \<open>The result of a numeric coercion: a number, or NaN.\<close>

datatype jsnum = NaN | Num real

datatype js_error =
    ProviderError \<comment> \<open>the request to the provider rejects, or its reply has no content to read\<close>
  | SyntaxError \<comment> \<open>\<open>JSON.parse\<close> rejects the text\<close>
  | TypeError \<comment> \<open>a property read on null or undefined, or an object with no primitive value\<close>
  | EmptyResponse \<comment> \<open>\<open>new Error("Resposta vazia do modelo")\<close>\<close>
  | Failure string js_error \<comment> \<open>\<open>new Error(prefix + cause.message)\<close>\<close>

text \<open>
  The provider's answer to one request, as the wrappers observe it: the request fails;
  the content is null or the empty string; the content is a non-empty text that
  \<open>JSON.parse\<close> rejects; or it is a non-empty text and \<open>JSON.parse\<close> returns the value.
\<close>

datatype reply = Rejected | NoContent | Unparseable | Parsed json

text \<open>ToBoolean, as \<open>||\<close> and \<open>!\<close> apply it.\<close>

fun truthy :: "json \<Rightarrow> bool" where
  "truthy JNull = False"
| "truthy (JBool b) = b"
| "truthy (JNum r) = (r \<noteq> 0)"
| "truthy (JStr s) = (s \<noteq> [])"
| "truthy (JArr xs) = True"
| "truthy (JObj kvs) = True"

text \<open>
  Reading the property \<open>k\<close> of a value other than null; \<open>None\<close> is undefined. The
  names the sources read (\<open>confidence\<close>, \<open>language\<close>, ...) are no built-in property of
  a string, number, boolean or array.
\<close>

fun Get :: "json \<Rightarrow> string \<Rightarrow> json option" where
  "Get (JObj kvs) k = map_of kvs k"
| "Get v k = None"

text \<open>\<open>x || d\<close>, for a property \<open>x\<close> that may be undefined.\<close>

fun or_default :: "json option \<Rightarrow> json \<Rightarrow> json" where
  "or_default None d = d"
| "or_default (Some v) d = (if truthy v then v else d)"

text \<open>\<open>Array.isArray(x) ? x : []\<close>.\<close>

fun array_or_empty :: "json option \<Rightarrow> json list" where
  "array_or_empty (Some (JArr xs)) = xs"
| "array_or_empty x = []"

text \<open>
  ToNumber, as \<open>Math.min\<close> applies it to its arguments. The platform's reading of a
  string (StringToNumber) and of an array (its elements joined, then read as a string) is
  the parameter \<open>cv\<close>. An object that \<open>JSON.parse\<close> returned has no callable method of
  its own: it reads as \<open>"[object Object]"\<close>, that is NaN, unless an own property
  \<open>toString\<close> hides the inherited method, and then the conversion throws.
\<close>

type_synonym coercion = "json \<Rightarrow> js_error + jsnum"

fun ToNumber :: "coercion \<Rightarrow> json \<Rightarrow> js_error + jsnum" where
  "ToNumber cv JNull = Inr (Num 0)"
| "ToNumber cv (JBool b) = Inr (Num (if b then 1 else 0))"
| "ToNumber cv (JNum r) = Inr (Num r)"
| "ToNumber cv (JObj kvs) = (if map_of kvs ''toString'' = None then Inr NaN else Inl TypeError)"
| "ToNumber cv v = cv v"

fun Math_min :: "jsnum \<Rightarrow> jsnum \<Rightarrow> jsnum" where
  "Math_min (Num a) (Num b) = Num (min a b)"
| "Math_min x y = NaN"

fun Math_max :: "jsnum \<Rightarrow> jsnum \<Rightarrow> jsnum" where
  "Math_max (Num a) (Num b) = Num (max a b)"
| "Math_max x y = NaN"

text \<open>
  \<open>Math.max(0, Math.min(1, c || d))\<close>, the expression each wrapper applies to the
  \<open>confidence\<close> property \<open>c\<close> with its own default \<open>d\<close>.
\<close>

definition clamp_confidence :: "coercion \<Rightarrow> json option \<Rightarrow> real \<Rightarrow> js_error + jsnum" where
  "clamp_confidence cv c d =
     (case ToNumber cv (or_default c (JNum d)) of
        Inl e \<Rightarrow> Inl e
      | Inr n \<Rightarrow> Inr (Math_max (Num 0) (Math_min (Num 1) n)))"

section \<open>The AI wrappers (server/services/openai.ts)\<close>

record enhancement =
  enhancedText :: json
  corrections :: "json list"
  e_confidence :: jsnum

record analysis =
  answer :: json
  a_confidence :: jsnum
  relatedTopics :: "json list"

record detection =
  language :: json
  d_confidence :: jsnum
  languageCode :: json

text \<open>
  The body of the \<open>try\<close> block up to the parsed value: \<open>content || "{}"\<close> makes an
  absent or empty content the empty object.
\<close>

fun parse_content :: "reply \<Rightarrow> js_error + json" where
  "parse_content Rejected = Inl ProviderError"
| "parse_content NoContent = Inr (JObj [])"
| "parse_content Unparseable = Inl SyntaxError"
| "parse_content (Parsed v) = Inr v"

definition enhance_fields :: "coercion \<Rightarrow> string \<Rightarrow> json \<Rightarrow> js_error + enhancement" where
  "enhance_fields cv text result =
     (if result = JNull then Inl TypeError
      else case clamp_confidence cv (Get result ''confidence'') 0.8 of
             Inl e \<Rightarrow> Inl e
           | Inr n \<Rightarrow> Inr \<lparr>enhancedText = or_default (Get result ''enhancedText'') (JStr text),
                           corrections = array_or_empty (Get result ''corrections''),
                           e_confidence = n\<rparr>)"

definition enhanceTranscriptionText :: "coercion \<Rightarrow> string \<Rightarrow> reply \<Rightarrow> js_error + enhancement" where
  "enhanceTranscriptionText cv text r =
     (case (case parse_content r of Inl e \<Rightarrow> Inl e | Inr result \<Rightarrow> enhance_fields cv text result) of
        Inr res \<Rightarrow> Inr res
      | Inl e \<Rightarrow> Inr \<lparr>enhancedText = JStr text, corrections = [], e_confidence = Num 0.5\<rparr>)"

definition analysis_fields :: "coercion \<Rightarrow> json \<Rightarrow> js_error + analysis" where
  "analysis_fields cv result =
     (if result = JNull then Inl TypeError
      else case clamp_confidence cv (Get result ''confidence'') 0.5 of
             Inl e \<Rightarrow> Inl e
           | Inr n \<Rightarrow> Inr \<lparr>answer = or_default (Get result ''answer'') (JStr Nao_foi_possivel),
                           a_confidence = n,
                           relatedTopics = array_or_empty (Get result ''relatedTopics'')\<rparr>)"

text \<open>
  The transcription and the question only enter the request; the route passes whatever
  truthy values the request body holds.
\<close>

definition analyzeTranscriptionContent ::
  "coercion \<Rightarrow> json \<Rightarrow> json \<Rightarrow> reply \<Rightarrow> js_error + analysis" where
  "analyzeTranscriptionContent cv transcription question r =
     (case (case parse_content r of Inl e \<Rightarrow> Inl e | Inr result \<Rightarrow> analysis_fields cv result) of
        Inr res \<Rightarrow> Inr res
      | Inl e \<Rightarrow> Inl (Failure Falha_ao_analisar e))"

definition detection_fields :: "coercion \<Rightarrow> json \<Rightarrow> js_error + detection" where
  "detection_fields cv result =
     (if result = JNull then Inl TypeError
      else case clamp_confidence cv (Get result ''confidence'') 0.5 of
             Inl e \<Rightarrow> Inl e
           | Inr n \<Rightarrow> Inr \<lparr>language = or_default (Get result ''language'') (JStr Nao_identificado),
                           d_confidence = n,
                           languageCode = or_default (Get result ''languageCode'') (JStr ''unknown'')\<rparr>)"

definition detection_error :: detection where
  "detection_error =
     \<lparr>language = JStr Erro_na_deteccao, d_confidence = Num 0, languageCode = JStr ''unknown''\<rparr>"

definition detectLanguageFromText :: "coercion \<Rightarrow> string \<Rightarrow> reply \<Rightarrow> js_error + detection" where
  "detectLanguageFromText cv text r =
     (case (case parse_content r of Inl e \<Rightarrow> Inl e | Inr result \<Rightarrow> detection_fields cv result) of
        Inr res \<Rightarrow> Inr res
      | Inl e \<Rightarrow> Inr detection_error)"

section \<open>The same wrappers over the Gemini provider\<close>

text \<open>Here an empty text is not replaced by \<open>"{}"\<close>: the wrapper throws.\<close>

fun parse_rawJson :: "reply \<Rightarrow> js_error + json" where
  "parse_rawJson Rejected = Inl ProviderError"
| "parse_rawJson NoContent = Inl EmptyResponse"
| "parse_rawJson Unparseable = Inl SyntaxError"
| "parse_rawJson (Parsed v) = Inr v"

definition gemini_detectLanguageFromText :: "coercion \<Rightarrow> string \<Rightarrow> reply \<Rightarrow> js_error + detection" where
  "gemini_detectLanguageFromText cv text r =
     (case (case parse_rawJson r of Inl e \<Rightarrow> Inl e | Inr data \<Rightarrow> detection_fields cv data) of
        Inr res \<Rightarrow> Inr res
      | Inl e \<Rightarrow> Inr detection_error)"

definition gemini_enhanceTranscriptionText :: "coercion \<Rightarrow> string \<Rightarrow> reply \<Rightarrow> js_error + enhancement" where
  "gemini_enhanceTranscriptionText cv text r =
     (case (case parse_rawJson r of Inl e \<Rightarrow> Inl e | Inr data \<Rightarrow> enhance_fields cv text data) of
        Inr res \<Rightarrow> Inr res
      | Inl e \<Rightarrow> Inr \<lparr>enhancedText = JStr text, corrections = [], e_confidence = Num 0.5\<rparr>)"

section \<open>The route POST /api/ai/analyze\<close>

datatype http_body =
    Message string
  | ErrorMessage js_error \<comment> \<open>\<open>{message: error.message}\<close>\<close>
  | AnalysisBody analysis

text \<open>
  The handler returns the response (status and body) and the requests it made to the AI
  provider: one for each call of \<open>analyzeTranscriptionContent\<close>, with its arguments.
  The body is \<open>None\<close> when \<open>req.body\<close> is undefined; destructuring undefined or null
  throws inside the \<open>try\<close>.
\<close>

definition post_ai_analyze ::
  "coercion \<Rightarrow> json option \<Rightarrow> reply \<Rightarrow> (nat \<times> http_body) \<times> (json \<times> json) list" where
  "post_ai_analyze cv body r =
     (case body of
        None \<Rightarrow> ((500, ErrorMessage TypeError), [])
      | Some JNull \<Rightarrow> ((500, ErrorMessage TypeError), [])
      | Some b \<Rightarrow>
          (case (Get b ''transcription'', Get b ''question'') of
             (Some transcription, Some question) \<Rightarrow>
               if \<not> truthy transcription \<or> \<not> truthy question
               then ((400, Message Transcricao_e_pergunta), [])
               else (case analyzeTranscriptionContent cv transcription question r of
                       Inr a \<Rightarrow> ((200, AnalysisBody a), [(transcription, question)])
                     | Inl e \<Rightarrow> ((500, ErrorMessage e), [(transcription, question)]))
           | _ \<Rightarrow> ((400, Message Transcricao_e_pergunta), [])))"

definition in_unit :: "jsnum \<Rightarrow> bool" where
  "in_unit n = (case n of NaN \<Rightarrow> False | Num r \<Rightarrow> 0 \<le> r \<and> r \<le> 1)"

section \<open>The recognition session (the hook useSpeechRecognition)\<close>

text \<open>
  The values the handlers of a recognition object close over. \<open>recognition.onresult\<close> is
  assigned once, in \<open>initializeRecognition\<close>, and the names \<open>transcript\<close>,
  \<open>enhancedMode\<close> and \<open>currentLanguage\<close> in it are constants of the render in which
  \<open>initializeRecognition\<close> was made: the handler reads these values at every event.
\<close>

record closure =
  cl_transcript :: string
  cl_enhancedMode :: bool
  cl_currentLanguage :: string

text \<open>
  The state cells of the hook and its three refs. A recognition object is identified
  with what its handlers closed over, an interval with the id \<open>setInterval\<close> returned.
\<close>

record session =
  isRecording :: bool
  transcript :: string
  detectedLanguage :: string
  confidence :: real
  audioLevel :: real
  recordingTime :: nat
  wordCount :: nat
  languageCount :: nat
  currentLanguage :: string
  enhancedMode :: bool
  detectedLanguages :: "string list"
  recognitionRef :: "closure option"
  timeIntervalRef :: "nat option"
  audioLevelIntervalRef :: "nat option"

text \<open>The values of the first render.\<close>

definition initial :: session where
  "initial =
     \<lparr>isRecording = False, transcript = [], detectedLanguage = Portugues_BR, confidence = 0.98,
      audioLevel = 0, recordingTime = 0, wordCount = 0, languageCount = 1,
      currentLanguage = ''pt-BR'', enhancedMode = True, detectedLanguages = [''pt-BR''],
      recognitionRef = None, timeIntervalRef = None, audioLevelIntervalRef = None\<rparr>"

text \<open>What a handler does besides updating the state.\<close>

datatype effect =
    RecognitionStop \<comment> \<open>\<open>recognitionRef.current.stop()\<close>\<close>
  | ClearInterval nat
  | Toast string string \<comment> \<open>title and description\<close>

text \<open>The background requests a result event fires.\<close>

datatype request =
    DetectLanguage string \<comment> \<open>\<open>detectLanguage(text)\<close>\<close>
  | EnhanceText string string \<comment> \<open>\<open>enhanceText({text, targetLanguage})\<close>\<close>

text \<open>\<open>updateWordCount\<close>: the number it stores.\<close>

definition count_words :: "string \<Rightarrow> nat" where
  "count_words text = length (filter (\<lambda>word. length word > 0) (split_ws (trim text)))"

subsection \<open>The offline language heuristic\<close>

definition portugueseWords :: "string list" where
  "portugueseWords =
     [''que'', ''n'' @ [CHR 0xE3] @ ''o'', ''uma'', ''para'', ''com'', ''est'' @ [CHR 0xE1],
      ''tem'', ''mais'']"

definition englishWords :: "string list" where
  "englishWords = [''the'', ''and'', ''is'', ''to'', ''it'', ''you'', ''that'', ''this'']"

definition spanishWords :: "string list" where
  "spanishWords = [''que'', ''de'', ''el'', ''la'', ''en'', ''y'', ''es'', ''se'']"

text \<open>
  The counter the \<open>forEach\<close> loop keeps for one keyword list: one more for each word of
  the text that the list includes.
\<close>

definition score :: "string list \<Rightarrow> string \<Rightarrow> nat" where
  "score keywords text =
     length (filter (\<lambda>word. word \<in> set keywords) (split_ws (toLowerCase text)))"

definition detectLanguageFromTextFallback :: "string \<Rightarrow> session \<Rightarrow> session" where
  "detectLanguageFromTextFallback text s =
     (let ptScore = score portugueseWords text;
          enScore = score englishWords text;
          esScore = score spanishWords text
      in if ptScore > enScore \<and> ptScore > esScore
         then s\<lparr>detectedLanguage := Portugues_BR, currentLanguage := ''pt-BR'', confidence := 0.85\<rparr>
         else if enScore > ptScore \<and> enScore > esScore
         then s\<lparr>detectedLanguage := English_US, currentLanguage := ''en-US'', confidence := 0.82\<rparr>
         else if esScore > ptScore \<and> esScore > enScore
         then s\<lparr>detectedLanguage := Espanol_ES, currentLanguage := ''es-ES'', confidence := 0.79\<rparr>
         else s)"

subsection \<open>Result events\<close>

text \<open>
  One entry of \<open>event.results\<close>: the transcript of its first alternative and its
  \<open>isFinal\<close> flag.
\<close>

record recognition_result =
  r_transcript :: string
  isFinal :: bool

record recognition_event =
  resultIndex :: nat
  results :: "recognition_result list"

text \<open>
  The loop over \<open>event.results\<close> from \<open>event.resultIndex\<close>, with its two accumulators
  \<open>finalTranscript\<close> and \<open>interimTranscript\<close>.
\<close>

fun collect :: "recognition_result list \<Rightarrow> string \<times> string \<Rightarrow> string \<times> string" where
  "collect [] acc = acc"
| "collect (r # rs) (fin, interim) =
     (if isFinal r then collect rs (fin @ r_transcript r, interim)
      else collect rs (fin, interim @ r_transcript r))"

definition finalTranscript :: "recognition_event \<Rightarrow> string" where
  "finalTranscript event = fst (collect (drop (resultIndex event) (results event)) ([], []))"

definition interimTranscript :: "recognition_event \<Rightarrow> string" where
  "interimTranscript event = snd (collect (drop (resultIndex event) (results event)) ([], []))"

definition onresult :: "closure \<Rightarrow> recognition_event \<Rightarrow> session \<Rightarrow> session \<times> request list" where
  "onresult cl event s =
     (let fullTranscript = cl_transcript cl @ finalTranscript event @ interimTranscript event
      in (s\<lparr>transcript := fullTranscript, wordCount := count_words fullTranscript\<rparr>,
          if finalTranscript event \<noteq> []
          then DetectLanguage (finalTranscript event)
               # (if cl_enhancedMode cl \<and> length (finalTranscript event) > 20
                  then [EnhanceText (finalTranscript event) (cl_currentLanguage cl)]
                  else [])
          else []))"

text \<open>
  \<open>initializeRecognition\<close>: no recognition object when the browser has no recognizer;
  otherwise a new object whose handlers close over the current render.
\<close>

definition initializeRecognition :: "bool \<Rightarrow> session \<Rightarrow> closure option \<times> effect list" where
  "initializeRecognition supported s =
     (if \<not> supported
      then (None, [Toast (''N'' @ [CHR 0xE3] @ ''o Suportado'')
                         (''Seu navegador n'' @ [CHR 0xE3] @ ''o suporta reconhecimento de voz'')])
      else (Some \<lparr>cl_transcript = transcript s, cl_enhancedMode = enhancedMode s,
                  cl_currentLanguage = currentLanguage s\<rparr>, []))"

text \<open>The result events of one recognition object, in order.\<close>

fun onresults :: "closure \<Rightarrow> recognition_event list \<Rightarrow> session \<Rightarrow> session" where
  "onresults cl [] s = s"
| "onresults cl (event # events) s = onresults cl events (fst (onresult cl event s))"

subsection \<open>stop and clear\<close>

definition stopRecording :: "session \<Rightarrow> session \<times> effect list" where
  "stopRecording s =
     (s\<lparr>recognitionRef := None, timeIntervalRef := None, audioLevelIntervalRef := None,
        audioLevel := 0\<rparr>,
      (case recognitionRef s of Some rec \<Rightarrow> [RecognitionStop] | None \<Rightarrow> [])
      @ (case timeIntervalRef s of Some t \<Rightarrow> [ClearInterval t] | None \<Rightarrow> [])
      @ (case audioLevelIntervalRef s of Some t \<Rightarrow> [ClearInterval t] | None \<Rightarrow> [])
      @ [Toast (''Grava'' @ [CHR 0xE7, CHR 0xE3] @ ''o Finalizada'')
               (''Transcri'' @ [CHR 0xE7, CHR 0xE3] @ ''o salva com sucesso'')])"

definition clearTranscript :: "session \<Rightarrow> session" where
  "clearTranscript s =
     s\<lparr>transcript := [], wordCount := 0, recordingTime := 0, languageCount := 1,
       detectedLanguage := Portugues_BR, confidence := 0.98, detectedLanguages := [''pt-BR'']\<rparr>"

text \<open>
  \<open>toggleEnhancedMode\<close> flips the state cell and shows a toast worded after the value
  before the flip. It does not touch the recognition object.
\<close>

definition toggleEnhancedMode :: "session \<Rightarrow> session \<times> effect list" where
  "toggleEnhancedMode s =
     (s\<lparr>enhancedMode := \<not> enhancedMode s\<rparr>,
      [Toast (if enhancedMode s then ''Modo Avan'' @ [CHR 0xE7] @ ''ado Desativado''
              else ''Modo Avan'' @ [CHR 0xE7] @ ''ado Ativado'')
             (if enhancedMode s
              then ''Usando apenas transcri'' @ [CHR 0xE7, CHR 0xE3] @ ''o b'' @ [CHR 0xE1] @ ''sica''
              else ''Usando IA para melhorar a transcri'' @ [CHR 0xE7, CHR 0xE3] @ ''o'')])"

text \<open>A session with no recognition object, no interval and a silent level meter.\<close>

definition stopped :: "session \<Rightarrow> bool" where
  "stopped s \<longleftrightarrow>
     recognitionRef s = None \<and> timeIntervalRef s = None \<and> audioLevelIntervalRef s = None
     \<and> audioLevel s = 0"

section \<open>Properties of the AI wrappers\<close>

lemma clamp_confidence_number:
  "x \<noteq> 0 \<Longrightarrow> clamp_confidence cv (Some (JNum x)) d = Inr (Num (max 0 (min 1 x)))"
  by (simp add: clamp_confidence_def)

lemma clamp_confidence_falsy:
  "d \<noteq> 0 \<Longrightarrow> c = None \<or> c = Some (JNum 0) \<Longrightarrow>
   clamp_confidence cv c d = Inr (Num (max 0 (min 1 d)))"
  by (auto simp add: clamp_confidence_def)

lemma in_unit_clamp: "in_unit (Num (max 0 (min 1 x)))"
  by (simp add: in_unit_def)

lemma detect_returns: "\<exists>d. detectLanguageFromText cv text r = Inr d"
  by (simp add: detectLanguageFromText_def split: sum.split)

lemma enhance_returns: "\<exists>e. enhanceTranscriptionText cv text r = Inr e"
  by (simp add: enhanceTranscriptionText_def split: sum.split)

lemma gemini_detect_returns: "\<exists>d. gemini_detectLanguageFromText cv text r = Inr d"
  by (simp add: gemini_detectLanguageFromText_def split: sum.split)

lemma gemini_enhance_returns: "\<exists>e. gemini_enhanceTranscriptionText cv text r = Inr e"
  by (simp add: gemini_enhanceTranscriptionText_def split: sum.split)

text \<open>
  C1, as the code has it. For every input text and every answer of the provider,
  detect-language and enhance return a result and never raise, in both provider files.
  When the request fails or the content does not parse, detect-language returns
  the object with language \<^const>\<open>Erro_na_deteccao\<close>, confidence 0 and code \<open>"unknown"\<close>, and enhance
  returns the input text with no corrections and confidence 0.5. On an empty content the
  Gemini wrappers return these same objects; the OpenAI wrappers parse \<open>"{}"\<close> instead
  and return the defaults of the missing fields: language \<^const>\<open>Nao_identificado\<close> with
  confidence 0.5 and code \<open>"unknown"\<close>, and the input text with confidence 0.8.
\<close>

theorem read_only_wrappers_defaults:
  "(\<exists>d. detectLanguageFromText cv text r = Inr d)
   \<and> (\<exists>e. enhanceTranscriptionText cv text r = Inr e)
   \<and> (\<exists>d. gemini_detectLanguageFromText cv text r = Inr d)
   \<and> (\<exists>e. gemini_enhanceTranscriptionText cv text r = Inr e)
   \<and> detectLanguageFromText cv text Unparseable =
       Inr \<lparr>language = JStr Erro_na_deteccao, d_confidence = Num 0, languageCode = JStr ''unknown''\<rparr>
   \<and> detectLanguageFromText cv text Rejected =
       Inr \<lparr>language = JStr Erro_na_deteccao, d_confidence = Num 0, languageCode = JStr ''unknown''\<rparr>
   \<and> enhanceTranscriptionText cv text Unparseable =
       Inr \<lparr>enhancedText = JStr text, corrections = [], e_confidence = Num 0.5\<rparr>
   \<and> enhanceTranscriptionText cv text Rejected =
       Inr \<lparr>enhancedText = JStr text, corrections = [], e_confidence = Num 0.5\<rparr>
   \<and> detectLanguageFromText cv text NoContent =
       Inr \<lparr>language = JStr Nao_identificado, d_confidence = Num 0.5, languageCode = JStr ''unknown''\<rparr>
   \<and> enhanceTranscriptionText cv text NoContent =
       Inr \<lparr>enhancedText = JStr text, corrections = [], e_confidence = Num 0.8\<rparr>
   \<and> gemini_detectLanguageFromText cv text Unparseable =
       Inr \<lparr>language = JStr Erro_na_deteccao, d_confidence = Num 0, languageCode = JStr ''unknown''\<rparr>
   \<and> gemini_detectLanguageFromText cv text Rejected =
       Inr \<lparr>language = JStr Erro_na_deteccao, d_confidence = Num 0, languageCode = JStr ''unknown''\<rparr>
   \<and> gemini_enhanceTranscriptionText cv text Rejected =
       Inr \<lparr>enhancedText = JStr text, corrections = [], e_confidence = Num 0.5\<rparr>
   \<and> gemini_detectLanguageFromText cv text NoContent =
       Inr \<lparr>language = JStr Erro_na_deteccao, d_confidence = Num 0, languageCode = JStr ''unknown''\<rparr>
   \<and> gemini_enhanceTranscriptionText cv text Unparseable =
       Inr \<lparr>enhancedText = JStr text, corrections = [], e_confidence = Num 0.5\<rparr>
   \<and> gemini_enhanceTranscriptionText cv text NoContent =
       Inr \<lparr>enhancedText = JStr text, corrections = [], e_confidence = Num 0.5\<rparr>"
proof -
  have openai_fail:
    "detectLanguageFromText cv text Unparseable = Inr detection_error"
    "detectLanguageFromText cv text Rejected = Inr detection_error"
    "enhanceTranscriptionText cv text Unparseable =
       Inr \<lparr>enhancedText = JStr text, corrections = [], e_confidence = Num 0.5\<rparr>"
    "enhanceTranscriptionText cv text Rejected =
       Inr \<lparr>enhancedText = JStr text, corrections = [], e_confidence = Num 0.5\<rparr>"
    by (simp_all add: detectLanguageFromText_def enhanceTranscriptionText_def)
  have openai_empty:
    "detectLanguageFromText cv text NoContent =
       Inr \<lparr>language = JStr Nao_identificado, d_confidence = Num 0.5, languageCode = JStr ''unknown''\<rparr>"
    "enhanceTranscriptionText cv text NoContent =
       Inr \<lparr>enhancedText = JStr text, corrections = [], e_confidence = Num 0.8\<rparr>"
    by (simp_all add: detectLanguageFromText_def enhanceTranscriptionText_def
        detection_fields_def enhance_fields_def clamp_confidence_def)
  have gemini:
    "gemini_detectLanguageFromText cv text Unparseable = Inr detection_error"
    "gemini_detectLanguageFromText cv text Rejected = Inr detection_error"
    "gemini_enhanceTranscriptionText cv text Rejected =
       Inr \<lparr>enhancedText = JStr text, corrections = [], e_confidence = Num 0.5\<rparr>"
    "gemini_detectLanguageFromText cv text NoContent = Inr detection_error"
    "gemini_enhanceTranscriptionText cv text Unparseable =
       Inr \<lparr>enhancedText = JStr text, corrections = [], e_confidence = Num 0.5\<rparr>"
    "gemini_enhanceTranscriptionText cv text NoContent =
       Inr \<lparr>enhancedText = JStr text, corrections = [], e_confidence = Num 0.5\<rparr>"
    by (simp_all add: gemini_detectLanguageFromText_def gemini_enhanceTranscriptionText_def)
  show ?thesis
    using detect_returns enhance_returns gemini_detect_returns gemini_enhance_returns
    by (simp only: openai_fail openai_empty gemini detection_error_def simp_thms)
qed

text \<open>
  C1 as stated fails: on a content that does not parse, detect-language does not return
  the object with language \<^const>\<open>Nao_identificado\<close>, confidence 0 and code \<open>"unknown"\<close>.
\<close>

theorem detect_malformed_counterexample:
  "detectLanguageFromText (\<lambda>v. Inr NaN) ''bom dia'' Unparseable \<noteq>
     Inr \<lparr>language = JStr Nao_identificado, d_confidence = Num 0, languageCode = JStr ''unknown''\<rparr>"
  by (simp add: detectLanguageFromText_def detection_error_def Nao_identificado_def
      Erro_na_deteccao_def)

lemma clamp_confidence_plain:
  assumes "c = None \<or> (\<exists>x. c = Some (JNum x))"
  shows "\<exists>y. clamp_confidence cv c d = Inr (Num (max 0 (min 1 y)))"
  using assms by (auto simp add: clamp_confidence_def)

lemma analysis_fields_confidence:
  "result \<noteq> JNull \<Longrightarrow> clamp_confidence cv (Get result ''confidence'') 0.5 = Inr n \<Longrightarrow>
   \<exists>a. analyzeTranscriptionContent cv t q (Parsed result) = Inr a \<and> a_confidence a = n"
  by (simp add: analyzeTranscriptionContent_def analysis_fields_def)

lemma detection_fields_confidence:
  "result \<noteq> JNull \<Longrightarrow> clamp_confidence cv (Get result ''confidence'') 0.5 = Inr n \<Longrightarrow>
   \<exists>a. detectLanguageFromText cv text (Parsed result) = Inr a \<and> d_confidence a = n"
  by (simp add: detectLanguageFromText_def detection_fields_def)

lemma enhance_fields_confidence:
  "result \<noteq> JNull \<Longrightarrow> clamp_confidence cv (Get result ''confidence'') 0.8 = Inr n \<Longrightarrow>
   \<exists>a. enhanceTranscriptionText cv text (Parsed result) = Inr a \<and> e_confidence a = n"
  by (simp add: enhanceTranscriptionText_def enhance_fields_def)

lemma analyze_in_unit:
  assumes "\<And>v. r = Parsed v \<Longrightarrow> Get v ''confidence'' = None \<or> (\<exists>x. Get v ''confidence'' = Some (JNum x))"
    and "analyzeTranscriptionContent cv t q r = Inr a"
  shows "in_unit (a_confidence a)"
proof (cases r)
  case (Parsed v)
  obtain y where "clamp_confidence cv (Get v ''confidence'') 0.5 = Inr (Num (max 0 (min 1 y)))"
    using clamp_confidence_plain [OF assms(1) [OF Parsed]] by blast
  with assms(2) Parsed show ?thesis
    by (auto simp add: analyzeTranscriptionContent_def analysis_fields_def in_unit_def
        split: if_splits)
next
  case NoContent
  with assms(2) show ?thesis
    by (auto simp add: analyzeTranscriptionContent_def analysis_fields_def clamp_confidence_def
        in_unit_def)
qed (use assms(2) in \<open>simp_all add: analyzeTranscriptionContent_def\<close>)

lemma detect_in_unit:
  assumes "\<And>v. r = Parsed v \<Longrightarrow> Get v ''confidence'' = None \<or> (\<exists>x. Get v ''confidence'' = Some (JNum x))"
    and "detectLanguageFromText cv text r = Inr a"
  shows "in_unit (d_confidence a)"
proof (cases r)
  case (Parsed v)
  obtain y where "clamp_confidence cv (Get v ''confidence'') 0.5 = Inr (Num (max 0 (min 1 y)))"
    using clamp_confidence_plain [OF assms(1) [OF Parsed]] by blast
  with assms(2) Parsed show ?thesis
    by (auto simp add: detectLanguageFromText_def detection_fields_def detection_error_def
        in_unit_def split: if_splits)
next
  case NoContent
  with assms(2) show ?thesis
    by (auto simp add: detectLanguageFromText_def detection_fields_def clamp_confidence_def
        in_unit_def)
qed (use assms(2) in \<open>auto simp add: detectLanguageFromText_def detection_error_def in_unit_def\<close>)

lemma enhance_in_unit:
  assumes "\<And>v. r = Parsed v \<Longrightarrow> Get v ''confidence'' = None \<or> (\<exists>x. Get v ''confidence'' = Some (JNum x))"
    and "enhanceTranscriptionText cv text r = Inr a"
  shows "in_unit (e_confidence a)"
proof (cases r)
  case (Parsed v)
  obtain y where "clamp_confidence cv (Get v ''confidence'') 0.8 = Inr (Num (max 0 (min 1 y)))"
    using clamp_confidence_plain [OF assms(1) [OF Parsed]] by blast
  with assms(2) Parsed show ?thesis
    by (auto simp add: enhanceTranscriptionText_def enhance_fields_def
        in_unit_def split: if_splits)
next
  case NoContent
  with assms(2) show ?thesis
    by (auto simp add: enhanceTranscriptionText_def enhance_fields_def clamp_confidence_def
        in_unit_def)
qed (use assms(2) in \<open>auto simp add: enhanceTranscriptionText_def in_unit_def\<close>)

text \<open>
  C5, as the code has it. Whenever the \<open>confidence\<close> field of the parsed response is a
  number or is missing, every confidence a wrapper reports is in [0,1] (analyze reports
  none when it raises). A number \<open>x\<close> other than 0 is reported as
  \<open>max 0 (min 1 x)\<close>, so 1.5 is reported as 1; a missing field is replaced by the default
  of the operation: 0.5 for analyze and detect-language, 0.8 for enhance.
\<close>

theorem wrappers_confidence_in_unit:
  assumes "\<And>v. r = Parsed v \<Longrightarrow>
             Get v ''confidence'' = None \<or> (\<exists>x. Get v ''confidence'' = Some (JNum x))"
  shows "(\<forall>a. analyzeTranscriptionContent cv t q r = Inr a \<longrightarrow> in_unit (a_confidence a))
    \<and> (\<forall>d. detectLanguageFromText cv text r = Inr d \<longrightarrow> in_unit (d_confidence d))
    \<and> (\<forall>e. enhanceTranscriptionText cv text r = Inr e \<longrightarrow> in_unit (e_confidence e))
    \<and> (r = Parsed v \<and> Get v ''confidence'' = Some (JNum x) \<and> x \<noteq> 0 \<longrightarrow>
          (\<exists>a. analyzeTranscriptionContent cv t q r = Inr a
                \<and> a_confidence a = Num (max 0 (min 1 x)))
        \<and> (\<exists>d. detectLanguageFromText cv text r = Inr d
                \<and> d_confidence d = Num (max 0 (min 1 x)))
        \<and> (\<exists>e. enhanceTranscriptionText cv text r = Inr e
                \<and> e_confidence e = Num (max 0 (min 1 x))))
    \<and> (r = Parsed v \<and> v \<noteq> JNull \<and> Get v ''confidence'' = None \<longrightarrow>
          (\<exists>a. analyzeTranscriptionContent cv t q r = Inr a \<and> a_confidence a = Num 0.5)
        \<and> (\<exists>d. detectLanguageFromText cv text r = Inr d \<and> d_confidence d = Num 0.5)
        \<and> (\<exists>e. enhanceTranscriptionText cv text r = Inr e \<and> e_confidence e = Num 0.8))"
proof -
  have bounded:
    "\<forall>a. analyzeTranscriptionContent cv t q r = Inr a \<longrightarrow> in_unit (a_confidence a)"
    "\<forall>d. detectLanguageFromText cv text r = Inr d \<longrightarrow> in_unit (d_confidence d)"
    "\<forall>e. enhanceTranscriptionText cv text r = Inr e \<longrightarrow> in_unit (e_confidence e)"
    using assms analyze_in_unit detect_in_unit enhance_in_unit by blast+
  have number: "(\<exists>a. analyzeTranscriptionContent cv t q r = Inr a
                \<and> a_confidence a = Num (max 0 (min 1 x)))
        \<and> (\<exists>d. detectLanguageFromText cv text r = Inr d
                \<and> d_confidence d = Num (max 0 (min 1 x)))
        \<and> (\<exists>e. enhanceTranscriptionText cv text r = Inr e
                \<and> e_confidence e = Num (max 0 (min 1 x)))"
    if "r = Parsed v" "Get v ''confidence'' = Some (JNum x)" "x \<noteq> 0"
  proof -
    from that(2) have "v \<noteq> JNull" by auto
    then show ?thesis
      using that analysis_fields_confidence detection_fields_confidence
        enhance_fields_confidence clamp_confidence_number by simp
  qed
  have missing: "(\<exists>a. analyzeTranscriptionContent cv t q r = Inr a \<and> a_confidence a = Num 0.5)
        \<and> (\<exists>d. detectLanguageFromText cv text r = Inr d \<and> d_confidence d = Num 0.5)
        \<and> (\<exists>e. enhanceTranscriptionText cv text r = Inr e \<and> e_confidence e = Num 0.8)"
    if "r = Parsed v" "v \<noteq> JNull" "Get v ''confidence'' = None"
  proof -
    have "clamp_confidence cv None 0.5 = Inr (Num 0.5)" "clamp_confidence cv None 0.8 = Inr (Num 0.8)"
      by (simp_all add: clamp_confidence_def)
    then show ?thesis
      using that analysis_fields_confidence detection_fields_confidence
        enhance_fields_confidence by simp
  qed
  have number': "r = Parsed v \<and> Get v ''confidence'' = Some (JNum x) \<and> x \<noteq> 0 \<longrightarrow>
          (\<exists>a. analyzeTranscriptionContent cv t q r = Inr a
                \<and> a_confidence a = Num (max 0 (min 1 x)))
        \<and> (\<exists>d. detectLanguageFromText cv text r = Inr d
                \<and> d_confidence d = Num (max 0 (min 1 x)))
        \<and> (\<exists>e. enhanceTranscriptionText cv text r = Inr e
                \<and> e_confidence e = Num (max 0 (min 1 x)))"
    by (intro impI, elim conjE, rule number)
  have missing': "r = Parsed v \<and> v \<noteq> JNull \<and> Get v ''confidence'' = None \<longrightarrow>
          (\<exists>a. analyzeTranscriptionContent cv t q r = Inr a \<and> a_confidence a = Num 0.5)
        \<and> (\<exists>d. detectLanguageFromText cv text r = Inr d \<and> d_confidence d = Num 0.5)
        \<and> (\<exists>e. enhanceTranscriptionText cv text r = Inr e \<and> e_confidence e = Num 0.8)"
    by (intro impI, elim conjE, rule missing)
  show ?thesis
    by (intro conjI bounded number' missing')
qed

text \<open>The response \<open>{"answer": "ok", "confidence": 1.5}\<close>: all three report 1.\<close>

theorem wrappers_confidence_in_unit_witness:
  "(\<exists>a. analyzeTranscriptionContent (\<lambda>v. Inr NaN) (JStr ''ata'') (JStr ''quem?'')
            (Parsed (JObj [(''answer'', JStr ''ok''), (''confidence'', JNum 1.5)])) = Inr a
         \<and> a_confidence a = Num 1 \<and> in_unit (a_confidence a))
   \<and> (\<exists>d. detectLanguageFromText (\<lambda>v. Inr NaN) ''ola''
            (Parsed (JObj [(''answer'', JStr ''ok''), (''confidence'', JNum 1.5)])) = Inr d
         \<and> d_confidence d = Num 1 \<and> in_unit (d_confidence d))
   \<and> (\<exists>e. enhanceTranscriptionText (\<lambda>v. Inr NaN) ''ola''
            (Parsed (JObj [(''answer'', JStr ''ok''), (''confidence'', JNum 1.5)])) = Inr e
         \<and> e_confidence e = Num 1 \<and> in_unit (e_confidence e))"
proof -
  have h: "Get v ''confidence'' = None \<or> (\<exists>x. Get v ''confidence'' = Some (JNum x))"
    if "Parsed (JObj [(''answer'', JStr ''ok''), (''confidence'', JNum 1.5)]) = Parsed v" for v
  proof -
    from that have "Get v ''confidence'' = Some (JNum 1.5)" by auto
    then show ?thesis by blast
  qed
  show ?thesis
    using wrappers_confidence_in_unit
      [where r = "Parsed (JObj [(''answer'', JStr ''ok''), (''confidence'', JNum 1.5)])"
         and cv = "\<lambda>v. Inr NaN" and t = "JStr ''ata''" and q = "JStr ''quem?''"
         and ?text = "''ola''"
         and v = "JObj [(''answer'', JStr ''ok''), (''confidence'', JNum 1.5)]" and x = "1.5", OF h]
    by (auto simp add: in_unit_def)
qed

text \<open>
  C5 as stated, for every response, fails: no wrapper checks that the field is a number.
  On \<open>{"confidence": {}}\<close> the object is truthy, \<open>Math.min(1, {})\<close> is NaN and so is
  \<open>Math.max(0, NaN)\<close>: the reported confidence is not in [0,1].
\<close>

theorem confidence_not_number_counterexample:
  "analyzeTranscriptionContent (\<lambda>v. Inr NaN) (JStr ''ata'') (JStr ''quem?'')
      (Parsed (JObj [(''answer'', JStr ''ok''), (''confidence'', JObj [])]))
     = Inr \<lparr>answer = JStr ''ok'', a_confidence = NaN, relatedTopics = []\<rparr>
   \<and> enhanceTranscriptionText (\<lambda>v. Inr NaN) ''ola''
      (Parsed (JObj [(''enhancedText'', JStr ''Ola.''), (''confidence'', JObj [])]))
     = Inr \<lparr>enhancedText = JStr ''Ola.'', corrections = [], e_confidence = NaN\<rparr>
   \<and> detectLanguageFromText (\<lambda>v. Inr NaN) ''ola''
      (Parsed (JObj [(''language'', JStr ''Ingles''), (''confidence'', JObj [])]))
     = Inr \<lparr>language = JStr ''Ingles'', d_confidence = NaN, languageCode = JStr ''unknown''\<rparr>
   \<and> \<not> in_unit NaN"
  by (simp add: analyzeTranscriptionContent_def analysis_fields_def enhanceTranscriptionText_def
      enhance_fields_def detectLanguageFromText_def detection_fields_def clamp_confidence_def
      in_unit_def)

text \<open>
  C10. When the \<open>confidence\<close> field of the parsed response is exactly 0, \<open>0 || d\<close>
  is the default \<open>d\<close>: analyze and detect-language report 0.5 and enhance reports 0.8,
  as for a missing field.
\<close>

theorem zero_confidence_is_default:
  assumes "Get result ''confidence'' = Some (JNum 0)"
  shows "(\<exists>a. analyzeTranscriptionContent cv t q (Parsed result) = Inr a \<and> a_confidence a = Num 0.5)
    \<and> (\<exists>d. detectLanguageFromText cv text (Parsed result) = Inr d \<and> d_confidence d = Num 0.5)
    \<and> (\<exists>e. enhanceTranscriptionText cv text (Parsed result) = Inr e \<and> e_confidence e = Num 0.8)"
proof -
  from assms have nn: "result \<noteq> JNull" by auto
  have "clamp_confidence cv (Get result ''confidence'') 0.5 = Inr (Num 0.5)"
    "clamp_confidence cv (Get result ''confidence'') 0.8 = Inr (Num 0.8)"
    using assms by (simp_all add: clamp_confidence_def)
  then show ?thesis
    using nn analysis_fields_confidence detection_fields_confidence enhance_fields_confidence
    by simp
qed

text \<open>The response \<open>{"answer": "sim", "confidence": 0}\<close>.\<close>

theorem zero_confidence_is_default_witness:
  "Get (JObj [(''answer'', JStr ''sim''), (''confidence'', JNum 0)]) ''confidence'' = Some (JNum 0)
   \<and> (\<exists>a. analyzeTranscriptionContent (\<lambda>v. Inr NaN) (JStr ''ata'') (JStr ''quem?'')
            (Parsed (JObj [(''answer'', JStr ''sim''), (''confidence'', JNum 0)])) = Inr a
          \<and> a_confidence a = Num 0.5)
   \<and> (\<exists>d. detectLanguageFromText (\<lambda>v. Inr NaN) ''ola''
            (Parsed (JObj [(''answer'', JStr ''sim''), (''confidence'', JNum 0)])) = Inr d
          \<and> d_confidence d = Num 0.5)
   \<and> (\<exists>e. enhanceTranscriptionText (\<lambda>v. Inr NaN) ''ola''
            (Parsed (JObj [(''answer'', JStr ''sim''), (''confidence'', JNum 0)])) = Inr e
          \<and> e_confidence e = Num 0.8)"
proof -
  have h: "Get (JObj [(''answer'', JStr ''sim''), (''confidence'', JNum 0)]) ''confidence''
             = Some (JNum 0)"
    by simp
  show ?thesis
    using h zero_confidence_is_default [OF h, where cv = "\<lambda>v. Inr NaN" and t = "JStr ''ata''" and q = "JStr ''quem?''" and ?text = "''ola''"]
    by simp
qed

lemma post_ai_analyze_calls:
  assumes "snd (post_ai_analyze cv body r) \<noteq> []"
  shows "\<exists>b transcription question. body = Some b
           \<and> Get b ''transcription'' = Some transcription \<and> truthy transcription
           \<and> Get b ''question'' = Some question \<and> truthy question
           \<and> snd (post_ai_analyze cv body r) = [(transcription, question)]"
  using assms
  by (auto simp add: post_ai_analyze_def split: option.splits json.splits if_splits sum.splits)

text \<open>
  C8. When the body of the request has no \<open>question\<close> field, or no \<open>transcription\<close>
  field, the route answers 400 and makes no request to the AI provider. Whatever the
  body, a request to the provider is made only when both fields are present and truthy,
  and then it is the single call of \<open>analyzeTranscriptionContent\<close> on them.
\<close>

theorem analyze_requires_both_fields:
  assumes "b \<noteq> JNull"
    and "Get b ''question'' = None \<or> Get b ''transcription'' = None"
  shows "post_ai_analyze cv (Some b) r = ((400, Message Transcricao_e_pergunta), [])
    \<and> (snd (post_ai_analyze cv body r) \<noteq> [] \<longrightarrow>
         (\<exists>b' transcription question. body = Some b'
            \<and> Get b' ''transcription'' = Some transcription \<and> truthy transcription
            \<and> Get b' ''question'' = Some question \<and> truthy question
            \<and> snd (post_ai_analyze cv body r) = [(transcription, question)]))"
proof -
  have "post_ai_analyze cv (Some b) r = ((400, Message Transcricao_e_pergunta), [])"
    using assms by (cases b) (auto simp add: post_ai_analyze_def split: option.splits)
  then show ?thesis
    using post_ai_analyze_calls [of cv body r] by blast
qed

text \<open>A body with only a transcription, and a body with both fields.\<close>

theorem analyze_requires_both_fields_witness:
  "post_ai_analyze (\<lambda>v. Inr NaN) (Some (JObj [(''transcription'', JStr ''bom dia a todos'')]))
      (Parsed (JObj [(''answer'', JStr ''ok'')]))
     = ((400, Message Transcricao_e_pergunta), [])
   \<and> post_ai_analyze (\<lambda>v. Inr NaN)
        (Some (JObj [(''transcription'', JStr ''bom dia a todos''), (''question'', JStr ''quem?'')]))
        (Parsed (JObj [(''answer'', JStr ''ok'')]))
     = ((200, AnalysisBody \<lparr>answer = JStr ''ok'', a_confidence = Num 0.5, relatedTopics = []\<rparr>),
        [(JStr ''bom dia a todos'', JStr ''quem?'')])"
proof -
  have h: "JObj [(''transcription'', JStr ''bom dia a todos'')] \<noteq> JNull"
    "Get (JObj [(''transcription'', JStr ''bom dia a todos'')]) ''question'' = None
     \<or> Get (JObj [(''transcription'', JStr ''bom dia a todos'')]) ''transcription'' = None"
    by simp_all
  have run: "post_ai_analyze (\<lambda>v. Inr NaN)
        (Some (JObj [(''transcription'', JStr ''bom dia a todos''), (''question'', JStr ''quem?'')]))
        (Parsed (JObj [(''answer'', JStr ''ok'')]))
     = ((200, AnalysisBody \<lparr>answer = JStr ''ok'', a_confidence = Num 0.5, relatedTopics = []\<rparr>),
        [(JStr ''bom dia a todos'', JStr ''quem?'')])"
    by (simp add: post_ai_analyze_def analyzeTranscriptionContent_def analysis_fields_def
        clamp_confidence_def)
  show ?thesis
    using analyze_requires_both_fields [OF h, of "\<lambda>v. Inr NaN" "Parsed (JObj [(''answer'', JStr ''ok'')])"] run
    by simp
qed

section \<open>Properties of the recognition session\<close>

lemma scores_english:
  "score portugueseWords ''the and is to it you that this'' = 0"
  "score englishWords ''the and is to it you that this'' = 8"
  "score spanishWords ''the and is to it you that this'' = 0"
  by code_simp+

text \<open>
  C2. On the text \<open>"the and is to it you that this"\<close> the heuristic sets the detected
  language to English (US) and the confidence to 0.82. For every text, the language whose
  score is strictly above both others is chosen with its fixed confidence (pt-BR 0.85,
  en-US 0.82, es-ES 0.79), whatever the scores are; with no strict maximum the session is
  left as it was.
\<close>

theorem fallback_fixed_confidence:
  "detectedLanguage (detectLanguageFromTextFallback ''the and is to it you that this'' s) = English_US
   \<and> confidence (detectLanguageFromTextFallback ''the and is to it you that this'' s) = 0.82
   \<and> (score portugueseWords text > score englishWords text
        \<and> score portugueseWords text > score spanishWords text \<longrightarrow>
        detectedLanguage (detectLanguageFromTextFallback text s) = Portugues_BR
        \<and> confidence (detectLanguageFromTextFallback text s) = 0.85)
   \<and> (score englishWords text > score portugueseWords text
        \<and> score englishWords text > score spanishWords text \<longrightarrow>
        detectedLanguage (detectLanguageFromTextFallback text s) = English_US
        \<and> confidence (detectLanguageFromTextFallback text s) = 0.82)
   \<and> (score spanishWords text > score portugueseWords text
        \<and> score spanishWords text > score englishWords text \<longrightarrow>
        detectedLanguage (detectLanguageFromTextFallback text s) = Espanol_ES
        \<and> confidence (detectLanguageFromTextFallback text s) = 0.79)
   \<and> (detectLanguageFromTextFallback text s = s
       \<or> (detectedLanguage (detectLanguageFromTextFallback text s),
           confidence (detectLanguageFromTextFallback text s))
          \<in> {(Portugues_BR, 0.85), (English_US, 0.82), (Espanol_ES, 0.79)})"
  by (simp add: detectLanguageFromTextFallback_def scores_english Let_def)

lemma scores_spanish:
  "score portugueseWords ''Que es la vida'' = 1"
  "score englishWords ''Que es la vida'' = 0"
  "score spanishWords ''Que es la vida'' = 3"
  by code_simp+

lemma scores_the:
  "score portugueseWords ''THE end'' = 0"
  "score englishWords ''THE end'' = 1"
  "score spanishWords ''THE end'' = 0"
  by code_simp+

text \<open>One English keyword gives the same 0.82 as eight; three Spanish keywords give 0.79.\<close>

theorem fallback_fixed_confidence_witness:
  "score englishWords ''THE end'' = 1
   \<and> confidence (detectLanguageFromTextFallback ''THE end'' initial) = 0.82
   \<and> detectedLanguage (detectLanguageFromTextFallback ''THE end'' initial) = English_US
   \<and> score spanishWords ''Que es la vida'' = 3
   \<and> confidence (detectLanguageFromTextFallback ''Que es la vida'' initial) = 0.79
   \<and> detectedLanguage (detectLanguageFromTextFallback ''Que es la vida'' initial) = Espanol_ES"
  using fallback_fixed_confidence [where ?text = "''THE end''" and s = initial]
    fallback_fixed_confidence [where ?text = "''Que es la vida''" and s = initial]
  by (simp add: scores_spanish scores_the)

lemma transcript_onresult:
  "transcript (fst (onresult cl event s))
     = cl_transcript cl @ finalTranscript event @ interimTranscript event"
  by (simp add: onresult_def Let_def)

lemma onresult_fresh_closure_grows:
  "cl_transcript cl = transcript s \<Longrightarrow>
   length (transcript s) \<le> length (transcript (fst (onresult cl event s)))"
  by (simp add: transcript_onresult)

text \<open>
  C3 asks that no result event shortens the transcript. The handler appends the text of
  the event to the \<open>transcript\<close> it closed over when the recognition object was made,
  not to the buffer as it is now. From the first render, with recording started on the
  empty transcript: the event with the final result \<open>"hello world"\<close> sets the buffer to
  \<open>"hello world"\<close> (11 characters), and the next event, with the interim result
  \<open>"hi"\<close> at index 1, sets it to \<open>"hi"\<close> (2 characters).
\<close>

theorem onresult_shortens_transcript:
  "initializeRecognition True initial =
     (Some \<lparr>cl_transcript = [], cl_enhancedMode = True, cl_currentLanguage = ''pt-BR''\<rparr>, [])
   \<and> transcript (onresults \<lparr>cl_transcript = [], cl_enhancedMode = True, cl_currentLanguage = ''pt-BR''\<rparr>
        [\<lparr>resultIndex = 0, results = [\<lparr>r_transcript = ''hello world'', isFinal = True\<rparr>]\<rparr>]
        initial) = ''hello world''
   \<and> transcript (onresults \<lparr>cl_transcript = [], cl_enhancedMode = True, cl_currentLanguage = ''pt-BR''\<rparr>
        [\<lparr>resultIndex = 0, results = [\<lparr>r_transcript = ''hello world'', isFinal = True\<rparr>]\<rparr>,
         \<lparr>resultIndex = 1, results = [\<lparr>r_transcript = ''hello world'', isFinal = True\<rparr>,
                                      \<lparr>r_transcript = ''hi'', isFinal = False\<rparr>]\<rparr>]
        initial) = ''hi''
   \<and> length (transcript (onresults \<lparr>cl_transcript = [], cl_enhancedMode = True, cl_currentLanguage = ''pt-BR''\<rparr>
        [\<lparr>resultIndex = 0, results = [\<lparr>r_transcript = ''hello world'', isFinal = True\<rparr>]\<rparr>,
         \<lparr>resultIndex = 1, results = [\<lparr>r_transcript = ''hello world'', isFinal = True\<rparr>,
                                      \<lparr>r_transcript = ''hi'', isFinal = False\<rparr>]\<rparr>]
        initial))
     < length (transcript (onresults \<lparr>cl_transcript = [], cl_enhancedMode = True, cl_currentLanguage = ''pt-BR''\<rparr>
        [\<lparr>resultIndex = 0, results = [\<lparr>r_transcript = ''hello world'', isFinal = True\<rparr>]\<rparr>]
        initial))"
  by (simp add: initializeRecognition_def initial_def onresult_def finalTranscript_def
      interimTranscript_def Let_def)

lemma snd_onresult:
  "snd (onresult cl event s) =
     (if finalTranscript event \<noteq> []
      then DetectLanguage (finalTranscript event)
           # (if cl_enhancedMode cl \<and> length (finalTranscript event) > 20
              then [EnhanceText (finalTranscript event) (cl_currentLanguage cl)]
              else [])
      else [])"
  by (simp add: onresult_def Let_def)

text \<open>
  The requests of one event, in terms of what the handler closed over. When the finalized
  text is not empty, the handler fires a language-detection request on that text, and a
  text-enhancement request if and only if the \<open>enhancedMode\<close> it closed over is on and
  the finalized text has more than 20 characters; an enhancement request is on the
  finalized text of the event, not on the buffer, and no other request is fired. When the
  finalized text is empty no request is fired. The session at the time of the event plays
  no part.
\<close>

lemma onresult_requests:
  "(finalTranscript event \<noteq> [] \<longrightarrow>
      DetectLanguage (finalTranscript event) \<in> set (snd (onresult cl event s))
      \<and> ((\<exists>text lang. EnhanceText text lang \<in> set (snd (onresult cl event s)))
           \<longleftrightarrow> cl_enhancedMode cl \<and> 20 < length (finalTranscript event))
      \<and> (\<forall>text lang. EnhanceText text lang \<in> set (snd (onresult cl event s)) \<longrightarrow>
            text = finalTranscript event \<and> lang = cl_currentLanguage cl)
      \<and> (\<forall>text. DetectLanguage text \<in> set (snd (onresult cl event s)) \<longrightarrow>
            text = finalTranscript event))
   \<and> (finalTranscript event = [] \<longrightarrow> snd (onresult cl event s) = [])"
  by (auto simp add: snd_onresult)

text \<open>
  An event with 27 finalized characters in two results and one interim result, and an
  event with an interim result only.
\<close>

lemma onresult_requests_example:
  "finalTranscript \<lparr>resultIndex = 0,
       results = [\<lparr>r_transcript = ''hoje o tempo esta '', isFinal = True\<rparr>,
                  \<lparr>r_transcript = ''muito bom'', isFinal = True\<rparr>,
                  \<lparr>r_transcript = '' para'', isFinal = False\<rparr>]\<rparr>
     = ''hoje o tempo esta muito bom''
   \<and> snd (onresult \<lparr>cl_transcript = ''Bom dia. '', cl_enhancedMode = True, cl_currentLanguage = ''pt-BR''\<rparr>
        \<lparr>resultIndex = 0,
         results = [\<lparr>r_transcript = ''hoje o tempo esta '', isFinal = True\<rparr>,
                    \<lparr>r_transcript = ''muito bom'', isFinal = True\<rparr>,
                    \<lparr>r_transcript = '' para'', isFinal = False\<rparr>]\<rparr> initial)
     = [DetectLanguage ''hoje o tempo esta muito bom'',
        EnhanceText ''hoje o tempo esta muito bom'' ''pt-BR'']
   \<and> snd (onresult \<lparr>cl_transcript = ''Bom dia. '', cl_enhancedMode = True, cl_currentLanguage = ''pt-BR''\<rparr>
        \<lparr>resultIndex = 0, results = [\<lparr>r_transcript = '' para'', isFinal = False\<rparr>]\<rparr> initial) = []"
proof -
  have f: "finalTranscript \<lparr>resultIndex = 0,
       results = [\<lparr>r_transcript = ''hoje o tempo esta '', isFinal = True\<rparr>,
                  \<lparr>r_transcript = ''muito bom'', isFinal = True\<rparr>,
                  \<lparr>r_transcript = '' para'', isFinal = False\<rparr>]\<rparr>
     = ''hoje o tempo esta muito bom''"
    "finalTranscript \<lparr>resultIndex = 0, results = [\<lparr>r_transcript = '' para'', isFinal = False\<rparr>]\<rparr> = []"
    by (simp_all add: finalTranscript_def)
  show ?thesis
    using onresult_requests [of "\<lparr>resultIndex = 0,
         results = [\<lparr>r_transcript = ''hoje o tempo esta '', isFinal = True\<rparr>,
                    \<lparr>r_transcript = ''muito bom'', isFinal = True\<rparr>,
                    \<lparr>r_transcript = '' para'', isFinal = False\<rparr>]\<rparr>"
        "\<lparr>cl_transcript = ''Bom dia. '', cl_enhancedMode = True, cl_currentLanguage = ''pt-BR''\<rparr>" initial]
      onresult_requests [of "\<lparr>resultIndex = 0, results = [\<lparr>r_transcript = '' para'', isFinal = False\<rparr>]\<rparr>"
        "\<lparr>cl_transcript = ''Bom dia. '', cl_enhancedMode = True, cl_currentLanguage = ''pt-BR''\<rparr>" initial]
    by (simp add: f onresult_def Let_def)
qed

lemma onresult_requests_ignore_session:
  "snd (onresult cl event s) = snd (onresult cl event s')"
  by (simp add: snd_onresult)

text \<open>
  C4 asks that a text-enhancement request is fired if and only if \<open>enhancedMode\<close> is on
  and the finalized text has more than 20 characters. The handler tests the
  \<open>enhancedMode\<close> it closed over when the recognition object was made, not the one
  of the session. From the first render, with recording started while the enhanced mode
  is on and the mode then switched off by \<open>toggleEnhancedMode\<close>: the enhanced mode of
  the session is off, and an event with 27 finalized characters still fires the
  enhancement request beside the language-detection request.
\<close>

theorem onresult_enhances_after_toggle:
  "initializeRecognition True initial =
     (Some \<lparr>cl_transcript = [], cl_enhancedMode = True, cl_currentLanguage = ''pt-BR''\<rparr>, [])
   \<and> \<not> enhancedMode (fst (toggleEnhancedMode initial))
   \<and> length (finalTranscript
        \<lparr>resultIndex = 0,
         results = [\<lparr>r_transcript = ''hoje o tempo esta muito bom'', isFinal = True\<rparr>]\<rparr>) = 27
   \<and> snd (onresult \<lparr>cl_transcript = [], cl_enhancedMode = True, cl_currentLanguage = ''pt-BR''\<rparr>
        \<lparr>resultIndex = 0,
         results = [\<lparr>r_transcript = ''hoje o tempo esta muito bom'', isFinal = True\<rparr>]\<rparr>
        (fst (toggleEnhancedMode initial)))
     = [DetectLanguage ''hoje o tempo esta muito bom'',
        EnhanceText ''hoje o tempo esta muito bom'' ''pt-BR'']"
  by (simp add: initializeRecognition_def initial_def toggleEnhancedMode_def snd_onresult
      finalTranscript_def)

text \<open>
  C6. From every state, \<open>clearTranscript\<close> sets the word count and the recording time
  to 0 and the detection state to that of the first render: the detected languages are
  \<open>["pt-BR"]\<close>, the language count is 1 and the detected language is
  \<^const>\<open>Portugues_BR\<close>.
\<close>

theorem clearTranscript_resets:
  "wordCount (clearTranscript s) = 0
   \<and> recordingTime (clearTranscript s) = 0
   \<and> detectedLanguages (clearTranscript s) = [''pt-BR'']
   \<and> languageCount (clearTranscript s) = 1
   \<and> detectedLanguage (clearTranscript s) = Portugues_BR
   \<and> detectedLanguages (clearTranscript s) = detectedLanguages initial
   \<and> languageCount (clearTranscript s) = languageCount initial
   \<and> detectedLanguage (clearTranscript s) = detectedLanguage initial"
  by (simp add: clearTranscript_def initial_def)

text \<open>
  C9. \<open>clearTranscript\<close> leaves the current language, the enhanced mode and the
  recording flag as they were, and also the audio level and the three refs: only the
  transcript, the counters and the detection state are reset.
\<close>

theorem clearTranscript_frame:
  "currentLanguage (clearTranscript s) = currentLanguage s
   \<and> enhancedMode (clearTranscript s) = enhancedMode s
   \<and> isRecording (clearTranscript s) = isRecording s
   \<and> audioLevel (clearTranscript s) = audioLevel s
   \<and> recognitionRef (clearTranscript s) = recognitionRef s
   \<and> timeIntervalRef (clearTranscript s) = timeIntervalRef s
   \<and> audioLevelIntervalRef (clearTranscript s) = audioLevelIntervalRef s"
  by (simp add: clearTranscript_def)

text \<open>
  C7. Stopping twice leaves the state that stopping once leaves, and stopping a stopped
  session leaves its state as it is. After a stop the audio level is 0 and both interval
  refs are empty; each interval the session held is cleared, and the second of two stops
  in a row clears no interval and stops no recognizer.
\<close>

theorem stopRecording_idempotent:
  "fst (stopRecording (fst (stopRecording s))) = fst (stopRecording s)
   \<and> (stopped s \<longrightarrow> fst (stopRecording s) = s)
   \<and> stopped (fst (stopRecording s))
   \<and> audioLevel (fst (stopRecording s)) = 0
   \<and> timeIntervalRef (fst (stopRecording s)) = None
   \<and> audioLevelIntervalRef (fst (stopRecording s)) = None
   \<and> (\<forall>t. timeIntervalRef s = Some t \<longrightarrow> ClearInterval t \<in> set (snd (stopRecording s)))
   \<and> (\<forall>t. audioLevelIntervalRef s = Some t \<longrightarrow> ClearInterval t \<in> set (snd (stopRecording s)))
   \<and> (\<forall>t. ClearInterval t \<notin> set (snd (stopRecording (fst (stopRecording s)))))
   \<and> RecognitionStop \<notin> set (snd (stopRecording (fst (stopRecording s))))"
  by (simp add: stopRecording_def stopped_def)

text \<open>A recording session holding a recognition object and the intervals 7 and 8.\<close>

theorem stopRecording_idempotent_witness:
  "fst (stopRecording
      (initial\<lparr>isRecording := True, audioLevel := 42,
         recognitionRef := Some \<lparr>cl_transcript = [], cl_enhancedMode = True,
                                  cl_currentLanguage = ''pt-BR''\<rparr>,
         timeIntervalRef := Some 7, audioLevelIntervalRef := Some 8\<rparr>))
     = initial\<lparr>isRecording := True\<rparr>
   \<and> stopped (initial\<lparr>isRecording := True\<rparr>)
   \<and> fst (stopRecording (initial\<lparr>isRecording := True\<rparr>)) = initial\<lparr>isRecording := True\<rparr>
   \<and> ClearInterval 7 \<in> set (snd (stopRecording
      (initial\<lparr>isRecording := True, audioLevel := 42,
         recognitionRef := Some \<lparr>cl_transcript = [], cl_enhancedMode = True,
                                  cl_currentLanguage = ''pt-BR''\<rparr>,
         timeIntervalRef := Some 7, audioLevelIntervalRef := Some 8\<rparr>)))
   \<and> ClearInterval 8 \<in> set (snd (stopRecording
      (initial\<lparr>isRecording := True, audioLevel := 42,
         recognitionRef := Some \<lparr>cl_transcript = [], cl_enhancedMode = True,
                                  cl_currentLanguage = ''pt-BR''\<rparr>,
         timeIntervalRef := Some 7, audioLevelIntervalRef := Some 8\<rparr>)))"
proof -
  have run: "fst (stopRecording
      (initial\<lparr>isRecording := True, audioLevel := 42,
         recognitionRef := Some \<lparr>cl_transcript = [], cl_enhancedMode = True,
                                  cl_currentLanguage = ''pt-BR''\<rparr>,
         timeIntervalRef := Some 7, audioLevelIntervalRef := Some 8\<rparr>))
     = initial\<lparr>isRecording := True\<rparr>"
    by (simp add: stopRecording_def initial_def)
  have held: "timeIntervalRef
      (initial\<lparr>isRecording := True, audioLevel := 42,
         recognitionRef := Some \<lparr>cl_transcript = [], cl_enhancedMode = True,
                                  cl_currentLanguage = ''pt-BR''\<rparr>,
         timeIntervalRef := Some 7, audioLevelIntervalRef := Some 8\<rparr>) = Some 7"
    "audioLevelIntervalRef
      (initial\<lparr>isRecording := True, audioLevel := 42,
         recognitionRef := Some \<lparr>cl_transcript = [], cl_enhancedMode = True,
                                  cl_currentLanguage = ''pt-BR''\<rparr>,
         timeIntervalRef := Some 7, audioLevelIntervalRef := Some 8\<rparr>) = Some 8"
    by simp_all
  have st: "stopped (initial\<lparr>isRecording := True\<rparr>)"
    by (simp add: stopped_def initial_def)
  show ?thesis
    using stopRecording_idempotent
      [of "initial\<lparr>isRecording := True, audioLevel := 42,
         recognitionRef := Some \<lparr>cl_transcript = [], cl_enhancedMode = True,
                                  cl_currentLanguage = ''pt-BR''\<rparr>,
         timeIntervalRef := Some 7, audioLevelIntervalRef := Some 8\<rparr>"]
      stopRecording_idempotent [of "initial\<lparr>isRecording := True\<rparr>"]
    by (simp add: run held st)
qed

end
